theory Spec2Isabelle
  imports Complex_Main "HOL-Library.Sublist" "HOL-Library.Log_Nat"
begin

section \<open>JavaScript values\<close>

text \<open>
  The service is one file, \<^verbatim>\<open>backend/index.js\<close>: every handler reads the whole JSON
  document, works on it in memory and writes it back. The embedding follows that shape:
  a handler is a function from the document (and the request's fields) to a response
  and the document as it is on disk afterwards.

  A string is its sequence of UTF-16 code units, each an integer. A request field is any value that
  \<^verbatim>\<open>JSON.parse\<close> or the query parser can produce, or \<^verbatim>\<open>undefined\<close> when it is absent;
  \<open>JNum x\<close> is a number written with the exact value \<open>x\<close>, which reading rounds to the
  nearest double.
\<close>

type_synonym jstring = "int list"

definition js :: "string \<Rightarrow> jstring" where
  "js s = map of_char s"

datatype jsval =
    JUndefined
  | JNull
  | JBool bool
  | JNum rat
  | JStr jstring
  | JArr "jsval list"
  | JObj "(jstring \<times> jsval) list"

datatype jsnum = NaN | PInf | NInf | Fin rat

datatype js_error = TypeError | RangeError

subsection \<open>Doubles\<close>

text \<open>
  A finite number is the rational it denotes (the two zeros are not told apart:
  nothing in the service divides by one, and \<^verbatim>\<open>JSON.stringify\<close> writes both as 0).
  \<open>round_double\<close> is IEEE 754 rounding to the nearest double, ties to even: 53
  significant bits, the least exponent \<open>-1022\<close> with subnormals below it, and an
  infinity from \<open>2^1024\<close> on.
\<close>

definition pow2 :: "int \<Rightarrow> rat" where
  "pow2 e = (if 0 \<le> e then of_int (2 ^ nat e) else 1 / of_int (2 ^ nat (- e)))"

definition ilog2 :: "rat \<Rightarrow> int" where
  "ilog2 a =
     (case quotient_of a of
        (p, q) \<Rightarrow> let k = bitlen p - bitlen q in if pow2 k \<le> a then k else k - 1)"

definition round_half_even :: "rat \<Rightarrow> int" where
  "round_half_even r =
     (let f = \<lfloor>r\<rfloor>; d = r - of_int f
      in if d < 1 / 2 then f else if 1 / 2 < d then f + 1 else if even f then f else f + 1)"

definition round_double :: "rat \<Rightarrow> jsnum" where
  "round_double x =
     (if x = 0 then Fin 0
      else
        let a = \<bar>x\<bar>;
            e = max (ilog2 a) (- 1022);
            u = pow2 (e - 52);
            v = of_int (round_half_even (a / u)) * u
        in if pow2 1024 \<le> v then (if 0 < x then PInf else NInf)
           else Fin (if 0 < x then v else - v))"

fun js_neg :: "jsnum \<Rightarrow> jsnum" where
  "js_neg NaN = NaN"
| "js_neg PInf = NInf"
| "js_neg NInf = PInf"
| "js_neg (Fin x) = Fin (- x)"

text \<open>\<^verbatim>\<open>a + b\<close>, \<^verbatim>\<open>a - b\<close> and \<^verbatim>\<open>a < b\<close> on numbers.\<close>

fun js_add :: "jsnum \<Rightarrow> jsnum \<Rightarrow> jsnum" where
  "js_add (Fin a) (Fin b) = round_double (a + b)"
| "js_add NaN _ = NaN"
| "js_add _ NaN = NaN"
| "js_add PInf NInf = NaN"
| "js_add NInf PInf = NaN"
| "js_add PInf _ = PInf"
| "js_add _ PInf = PInf"
| "js_add NInf _ = NInf"
| "js_add _ NInf = NInf"

definition js_sub :: "jsnum \<Rightarrow> jsnum \<Rightarrow> jsnum" where
  "js_sub a b = js_add a (js_neg b)"

fun js_lt :: "jsnum \<Rightarrow> jsnum \<Rightarrow> bool" where
  "js_lt (Fin a) (Fin b) = (a < b)"
| "js_lt NaN _ = False"
| "js_lt _ NaN = False"
| "js_lt NInf NInf = False"
| "js_lt NInf _ = True"
| "js_lt _ NInf = False"
| "js_lt PInf _ = False"
| "js_lt _ PInf = True"

text \<open>
  Truthiness, as \<^verbatim>\<open>!x\<close>, \<^verbatim>\<open>x || y\<close>, \<^verbatim>\<open>x && y\<close> and \<^verbatim>\<open>if (x)\<close> test it: \<^verbatim>\<open>undefined\<close>,
  \<^verbatim>\<open>null\<close>, \<^verbatim>\<open>false\<close>, zero and the empty string are falsy, every array and object is
  truthy.
\<close>

fun truthy :: "jsval \<Rightarrow> bool" where
  "truthy JUndefined = False"
| "truthy JNull = False"
| "truthy (JBool b) = b"
| "truthy (JNum x) = (round_double x \<noteq> Fin 0)"
| "truthy (JStr s) = (s \<noteq> [])"
| "truthy (JArr xs) = True"
| "truthy (JObj kvs) = True"

fun truthy_num :: "jsnum \<Rightarrow> bool" where
  "truthy_num NaN = False"
| "truthy_num (Fin x) = (x \<noteq> 0)"
| "truthy_num _ = True"

subsection \<open>\<^verbatim>\<open>Number(s)\<close> on a string\<close>

text \<open>
  The grammar of ECMAScript's \<^verbatim>\<open>StringToNumber\<close>: white space is trimmed; the empty
  string is 0; \<^verbatim>\<open>0x\<close>, \<^verbatim>\<open>0o\<close> and \<^verbatim>\<open>0b\<close> introduce unsigned hexadecimal, octal and
  binary integers; otherwise an optional sign is followed by \<^verbatim>\<open>Infinity\<close> or by decimal
  digits with an optional fraction and an optional exponent. Anything else is \<open>NaN\<close>.
  The value is rounded to the nearest double.
\<close>

definition is_ws :: "int \<Rightarrow> bool" where
  "is_ws c =
     ((9 \<le> c \<and> c \<le> 13) \<or> c = 32 \<or> c = 160 \<or> c = 5760 \<or> (8192 \<le> c \<and> c \<le> 8202)
      \<or> c = 8232 \<or> c = 8233 \<or> c = 8239 \<or> c = 8287 \<or> c = 12288 \<or> c = 65279)"

definition trim :: "jstring \<Rightarrow> jstring" where
  "trim s = rev (dropWhile is_ws (rev (dropWhile is_ws s)))"

definition digit_in :: "int \<Rightarrow> int \<Rightarrow> int option" where
  "digit_in b c =
     (let v = (if 48 \<le> c \<and> c \<le> 57 then Some (c - 48)
               else if 97 \<le> c \<and> c \<le> 102 then Some (c - 87)
               else if 65 \<le> c \<and> c \<le> 70 then Some (c - 55)
               else None)
      in case v of None \<Rightarrow> None | Some d \<Rightarrow> if d < b then Some d else None)"

fun digits_val :: "int \<Rightarrow> jstring \<Rightarrow> int \<Rightarrow> int option" where
  "digits_val b [] acc = Some acc"
| "digits_val b (c # cs) acc =
     (case digit_in b c of None \<Rightarrow> None | Some d \<Rightarrow> digits_val b cs (b * acc + d))"

definition integer_literal :: "int \<Rightarrow> jstring \<Rightarrow> jsnum" where
  "integer_literal b ds =
     (if ds = [] then NaN
      else case digits_val b ds 0 of None \<Rightarrow> NaN | Some n \<Rightarrow> round_double (of_int n))"

definition is_digit :: "int \<Rightarrow> bool" where
  "is_digit c = (48 \<le> c \<and> c \<le> 57)"

definition pow10 :: "int \<Rightarrow> rat" where
  "pow10 e = (if 0 \<le> e then of_int (10 ^ nat e) else 1 / of_int (10 ^ nat (- e)))"

definition exponent_digits :: "jstring \<Rightarrow> int option" where
  "exponent_digits ds =
     (if ds = [] then None
      else case digits_val 10 ds 0 of None \<Rightarrow> None | Some n \<Rightarrow> Some n)"

fun exponent_part :: "jstring \<Rightarrow> int option" where
  "exponent_part [] = Some 0"
| "exponent_part (c # r) =
     (if c = 101 \<or> c = 69
      then (case r of
              [] \<Rightarrow> None
            | s # ds \<Rightarrow>
                if s = 43 then exponent_digits ds
                else if s = 45 then map_option uminus (exponent_digits ds)
                else exponent_digits (s # ds))
      else None)"

definition unsigned_decimal :: "jstring \<Rightarrow> jsnum" where
  "unsigned_decimal t =
     (if t = js ''Infinity'' then PInf
      else
        let ip = takeWhile is_digit t;
            r1 = dropWhile is_digit t;
            fp = (case r1 of [] \<Rightarrow> [] | c # r \<Rightarrow> if c = 46 then takeWhile is_digit r else []);
            r2 = (case r1 of [] \<Rightarrow> [] | c # r \<Rightarrow> if c = 46 then dropWhile is_digit r else r1)
        in if ip = [] \<and> fp = [] then NaN
           else case exponent_part r2 of
                  None \<Rightarrow> NaN
                | Some ex \<Rightarrow>
                    (case digits_val 10 (ip @ fp) 0 of
                       None \<Rightarrow> NaN
                     | Some n \<Rightarrow> round_double (of_int n * pow10 (ex - int (length fp)))))"

definition radix_of :: "jstring \<Rightarrow> int option" where
  "radix_of t =
     (case t of
        c # x # ds \<Rightarrow>
          if c \<noteq> 48 then None
          else if x = 120 \<or> x = 88 then Some 16
          else if x = 111 \<or> x = 79 then Some 8
          else if x = 98 \<or> x = 66 then Some 2
          else None
      | _ \<Rightarrow> None)"

definition StringToNumber :: "jstring \<Rightarrow> jsnum" where
  "StringToNumber s =
     (case trim s of
        [] \<Rightarrow> Fin 0
      | c # r \<Rightarrow>
          (case radix_of (c # r) of
             Some b \<Rightarrow> integer_literal b (drop 1 r)
           | None \<Rightarrow>
               if c = 43 then unsigned_decimal r
               else if c = 45 then js_neg (unsigned_decimal r)
               else unsigned_decimal (c # r)))"

subsection \<open>\<^verbatim>\<open>Number(v)\<close> on any value\<close>

text \<open>
  An object is converted through \<^verbatim>\<open>valueOf\<close> and \<^verbatim>\<open>toString\<close>. A value read from JSON has
  no callable property, so an object with a key \<^verbatim>\<open>toString\<close> of its own has no way to
  become a primitive and the conversion throws a TypeError; any other object becomes
  \<^verbatim>\<open>"[object Object]"\<close>, which is not a number. An array is joined with commas, with
  \<^verbatim>\<open>null\<close> as the empty string: two or more elements leave a comma, one element
  leaves that element's own text.
\<close>

fun throws_str :: "jsval \<Rightarrow> bool" where
  "throws_str (JObj kvs) = (js ''toString'' \<in> set (map fst kvs))"
| "throws_str (JArr xs) = list_ex throws_str xs"
| "throws_str _ = False"

fun Number_value :: "jsval \<Rightarrow> jsnum" where
  "Number_value JUndefined = NaN"
| "Number_value JNull = Fin 0"
| "Number_value (JBool b) = Fin (if b then 1 else 0)"
| "Number_value (JNum x) = round_double x"
| "Number_value (JStr s) = StringToNumber s"
| "Number_value (JObj kvs) = NaN"
| "Number_value (JArr []) = Fin 0"
| "Number_value (JArr [x]) =
     (case x of
        JUndefined \<Rightarrow> Fin 0
      | JNull \<Rightarrow> Fin 0
      | JBool b \<Rightarrow> NaN
      | _ \<Rightarrow> Number_value x)"
| "Number_value (JArr (x # y # zs)) = NaN"

definition Number :: "jsval \<Rightarrow> js_error + jsnum" where
  "Number v = (if throws_str v then Inl TypeError else Inr (Number_value v))"


subsection \<open>What is stored\<close>

text \<open>
  \<^verbatim>\<open>JSON.stringify\<close> writes \<open>NaN\<close> and the infinities as \<^verbatim>\<open>null\<close>, and the next request
  reads that back. A number field of the stored document is therefore a finite number
  or \<^verbatim>\<open>null\<close> (\<open>None\<close>); in arithmetic and comparisons \<^verbatim>\<open>null\<close> is 0, and \<^verbatim>\<open>x || 0\<close>
  gives 0 for it too. \<open>stored\<close> is the same passage for any value.
\<close>

fun stringify_num :: "jsnum \<Rightarrow> rat option" where
  "stringify_num (Fin x) = Some x"
| "stringify_num _ = None"

fun ToNumber :: "rat option \<Rightarrow> rat" where
  "ToNumber None = 0"
| "ToNumber (Some x) = x"

fun or_zero :: "rat option \<Rightarrow> rat" where
  "or_zero None = 0"
| "or_zero (Some x) = (if x = 0 then 0 else x)"

fun stored :: "jsval \<Rightarrow> jsval" where
  "stored (JNum x) = (case round_double x of Fin v \<Rightarrow> JNum v | _ \<Rightarrow> JNull)"
| "stored (JArr xs) = JArr (map stored xs)"
| "stored (JObj kvs) = JObj (map (\<lambda>kv. (fst kv, stored (snd kv))) kvs)"
| "stored v = v"

subsection \<open>Strings\<close>

text \<open>
  \<^verbatim>\<open>s.includes(t)\<close> is substring search. \<^verbatim>\<open>toLowerCase\<close> is the case mapping of the
  Unicode tables: the handlers that use it take it as the argument \<open>lower\<close>. It is a
  method of strings only, so calling it on anything else throws a TypeError.
  \<open>ascii_lower\<close> is what it does on ASCII text.
\<close>

definition starts_with :: "jstring \<Rightarrow> jstring \<Rightarrow> bool" where
  "starts_with s t = (take (length t) s = t)"

fun str_includes :: "jstring \<Rightarrow> jstring \<Rightarrow> bool" where
  "str_includes [] t = (t = [])"
| "str_includes (c # cs) t = (starts_with (c # cs) t \<or> str_includes cs t)"

fun lowered :: "(jstring \<Rightarrow> jstring) \<Rightarrow> jsval \<Rightarrow> js_error + jstring" where
  "lowered lower (JStr s) = Inr (lower s)"
| "lowered lower v = Inl TypeError"

definition or_empty :: "jsval \<Rightarrow> jsval" where
  "or_empty v = (if truthy v then v else JStr [])"

definition ascii_lower :: "jstring \<Rightarrow> jstring" where
  "ascii_lower s = map (\<lambda>c. if 65 \<le> c \<and> c \<le> 90 then c + 32 else c) s"

subsection \<open>Arrays\<close>

text \<open>
  \<^verbatim>\<open>xs.find(P)\<close> is \<^const>\<open>List.find\<close>: the first element that satisfies \<open>P\<close>. The handlers
  then assign to fields of the object found, which changes that element of the array
  and no other: \<open>update_first\<close>. \<^verbatim>\<open>xs.filter(P)\<close> calls \<open>P\<close> on the elements in order and
  stops at the first call that throws.
\<close>

fun update_first :: "('a \<Rightarrow> bool) \<Rightarrow> ('a \<Rightarrow> 'a) \<Rightarrow> 'a list \<Rightarrow> 'a list" where
  "update_first P f [] = []"
| "update_first P f (x # xs) = (if P x then f x # xs else x # update_first P f xs)"

fun filter_throw :: "('a \<Rightarrow> js_error + bool) \<Rightarrow> 'a list \<Rightarrow> js_error + 'a list" where
  "filter_throw P [] = Inr []"
| "filter_throw P (x # xs) =
     (case P x of
        Inl e \<Rightarrow> Inl e
      | Inr b \<Rightarrow>
          (case filter_throw P xs of
             Inl e \<Rightarrow> Inl e
           | Inr ys \<Rightarrow> Inr (if b then x # ys else ys)))"

section \<open>Dates\<close>

text \<open>
  A \<^verbatim>\<open>Date\<close> holds a time value: milliseconds since 1970-01-01T00:00:00Z, within
  \<open>8.64e15\<close> of it either way, or \<open>NaN\<close> (here \<open>None\<close>) for an invalid date.
  \<^verbatim>\<open>toISOString\<close> prints a valid time value in UTC and throws a RangeError on an
  invalid one; a stored timestamp is the time value that its text denotes. The
  functions are those of ECMAScript's \<^emph>\<open>Date\<close> chapter.
\<close>

definition msPerDay :: int where
  "msPerDay = 86400000"

definition Day :: "int \<Rightarrow> int" where
  "Day t = t div msPerDay"

definition TimeWithinDay :: "int \<Rightarrow> int" where
  "TimeWithinDay t = t mod msPerDay"

definition DaysInYear :: "int \<Rightarrow> int" where
  "DaysInYear y =
     (if y mod 4 \<noteq> 0 then 365
      else if y mod 100 \<noteq> 0 then 366
      else if y mod 400 \<noteq> 0 then 365
      else 366)"

definition DayFromYear :: "int \<Rightarrow> int" where
  "DayFromYear y =
     365 * (y - 1970) + (y - 1969) div 4 - (y - 1901) div 100 + (y - 1601) div 400"

text \<open>
  \<^verbatim>\<open>YearFromTime(t)\<close> is the largest year \<open>y\<close> whose first day is not after \<open>t\<close>: found
  from an estimate by stepping down while the year starts too late and then up while
  the next year starts in time.
\<close>

lemma div_succ:
  "0 < k \<Longrightarrow> (x + 1) div k = (if (x + 1) mod k = 0 then x div k + 1 else x div (k::int))"
proof -
  assume k: "0 < k"
  define q where "q = x div k"
  define r where "r = x mod k"
  have x: "x = k * q + r" and r: "0 \<le> r" "r < k"
    using k by (simp_all add: q_def r_def)
  show ?thesis
  proof (cases "r + 1 = k")
    case True
    then have e: "x + 1 = k * (q + 1) + 0" using x by (simp add: algebra_simps)
    have "(x + 1) div k = q + 1" using k by (intro int_div_pos_eq [OF e]) simp_all
    moreover have "(x + 1) mod k = 0" using k by (intro int_mod_pos_eq [OF e]) simp_all
    ultimately show ?thesis by (simp add: q_def)
  next
    case False
    then have lt: "r + 1 < k" using r by simp
    have e: "x + 1 = k * q + (r + 1)" using x by simp
    have "(x + 1) div k = q" using r lt by (intro int_div_pos_eq [OF e]) simp_all
    moreover have "(x + 1) mod k = r + 1" using r lt by (intro int_mod_pos_eq [OF e]) simp_all
    ultimately show ?thesis using r by (simp add: q_def)
  qed
qed

lemma DayFromYear_Suc: "DayFromYear (y + 1) = DayFromYear y + DaysInYear y"
proof -
  have "y - 1969 + 1 = y + (- 492) * 4" by simp
  then have m4: "((y - 1969 + 1) mod 4 = 0) = (y mod 4 = 0)"
    by (simp only: mod_mult_self1)
  have "y - 1901 + 1 = y + (- 19) * 100" by simp
  then have m100: "((y - 1901 + 1) mod 100 = 0) = (y mod 100 = 0)"
    by (simp only: mod_mult_self1)
  have "y - 1601 + 1 = y + (- 4) * 400" by simp
  then have m400: "((y - 1601 + 1) mod 400 = 0) = (y mod 400 = 0)"
    by (simp only: mod_mult_self1)
  have m400_100: "y mod 400 = 0 \<Longrightarrow> y mod 100 = 0"
    using mod_mod_cancel [of 100 400 y] by simp
  have m100_4: "y mod 100 = 0 \<Longrightarrow> y mod 4 = 0"
    using mod_mod_cancel [of 4 100 y] by simp
  have a: "(y + 1 - 1969) div 4
             = (if y mod 4 = 0 then (y - 1969) div 4 + 1 else (y - 1969) div 4)"
    using div_succ [of 4 "y - 1969"] m4 by (simp add: algebra_simps)
  have b: "(y + 1 - 1901) div 100
             = (if y mod 100 = 0 then (y - 1901) div 100 + 1 else (y - 1901) div 100)"
    using div_succ [of 100 "y - 1901"] m100 by (simp add: algebra_simps)
  have c: "(y + 1 - 1601) div 400
             = (if y mod 400 = 0 then (y - 1601) div 400 + 1 else (y - 1601) div 400)"
    using div_succ [of 400 "y - 1601"] m400 by (simp add: algebra_simps)
  show ?thesis
    unfolding DayFromYear_def DaysInYear_def a b c
    using m400_100 m100_4 by auto
qed

lemma DayFromYear_step: "DayFromYear y < DayFromYear (y + 1)"
  by (simp add: DayFromYear_Suc DaysInYear_def)

function year_down :: "int \<Rightarrow> int \<Rightarrow> int" where
  "year_down d y = (if d < DayFromYear y then year_down d (y - 1) else y)"
  by pat_completeness auto
termination
proof (relation "measure (\<lambda>(d, y). nat (DayFromYear y - d))")
  show "wf (measure (\<lambda>(d, y). nat (DayFromYear y - d)))"
    by simp
next
  fix d y :: int
  assume "d < DayFromYear y"
  with DayFromYear_step [of "y - 1"]
  show "((d, y - 1), (d, y)) \<in> measure (\<lambda>(d, y). nat (DayFromYear y - d))"
    by simp
qed

function year_up :: "int \<Rightarrow> int \<Rightarrow> int" where
  "year_up d y = (if DayFromYear (y + 1) \<le> d then year_up d (y + 1) else y)"
  by pat_completeness auto
termination
proof (relation "measure (\<lambda>(d, y). nat (d + 1 - DayFromYear (y + 1)))")
  show "wf (measure (\<lambda>(d, y). nat (d + 1 - DayFromYear (y + 1))))"
    by simp
next
  fix d y :: int
  assume "DayFromYear (y + 1) \<le> d"
  with DayFromYear_step [of "y + 1"]
  show "((d, y + 1), (d, y)) \<in> measure (\<lambda>(d, y). nat (d + 1 - DayFromYear (y + 1)))"
    by simp
qed

declare year_down.simps [simp del]

declare year_up.simps [simp del]

definition YearFromTime :: "int \<Rightarrow> int" where
  "YearFromTime t = year_up (Day t) (year_down (Day t) (1970 + Day t div 365))"

definition InLeapYear :: "int \<Rightarrow> int" where
  "InLeapYear t = (if DaysInYear (YearFromTime t) = 366 then 1 else 0)"

definition DayWithinYear :: "int \<Rightarrow> int" where
  "DayWithinYear t = Day t - DayFromYear (YearFromTime t)"

definition MonthFromTime :: "int \<Rightarrow> int" where
  "MonthFromTime t =
     (let d = DayWithinYear t; l = InLeapYear t
      in if d < 31 then 0
         else if d < 59 + l then 1
         else if d < 90 + l then 2
         else if d < 120 + l then 3
         else if d < 151 + l then 4
         else if d < 181 + l then 5
         else if d < 212 + l then 6
         else if d < 243 + l then 7
         else if d < 273 + l then 8
         else if d < 304 + l then 9
         else if d < 334 + l then 10
         else 11)"

definition DateFromTime :: "int \<Rightarrow> int" where
  "DateFromTime t =
     (let d = DayWithinYear t; l = InLeapYear t; m = MonthFromTime t
      in if m = 0 then d + 1
         else if m = 1 then d - 30
         else if m = 2 then d - 58 - l
         else if m = 3 then d - 89 - l
         else if m = 4 then d - 119 - l
         else if m = 5 then d - 150 - l
         else if m = 6 then d - 180 - l
         else if m = 7 then d - 211 - l
         else if m = 8 then d - 242 - l
         else if m = 9 then d - 272 - l
         else if m = 10 then d - 303 - l
         else d - 333 - l)"

text \<open>
  \<^verbatim>\<open>MakeDay(year, month, date)\<close> takes the day on which month \<open>month mod 12\<close> of year
  \<open>year + month div 12\<close> begins and counts \<open>date - 1\<close> days on from it.
\<close>

definition first_day_of_month :: "int \<Rightarrow> int \<Rightarrow> int" where
  "first_day_of_month y m =
     (let l = (if DaysInYear y = 366 then 1 else 0)
      in DayFromYear y +
         (if m = 0 then 0
          else if m = 1 then 31
          else if m = 2 then 59 + l
          else if m = 3 then 90 + l
          else if m = 4 then 120 + l
          else if m = 5 then 151 + l
          else if m = 6 then 181 + l
          else if m = 7 then 212 + l
          else if m = 8 then 243 + l
          else if m = 9 then 273 + l
          else if m = 10 then 304 + l
          else 334 + l))"

definition MakeDay :: "int \<Rightarrow> int \<Rightarrow> int \<Rightarrow> int" where
  "MakeDay year' month' date' =
     first_day_of_month (year' + month' div 12) (month' mod 12) + date' - 1"

definition MakeDate :: "int \<Rightarrow> int \<Rightarrow> int" where
  "MakeDate day' time' = day' * msPerDay + time'"

definition TimeClip :: "int \<Rightarrow> int option" where
  "TimeClip t = (if \<bar>t\<bar> \<le> 8640000000000000 then Some t else None)"

text \<open>\<^verbatim>\<open>ToIntegerOrInfinity\<close> on a finite number: the fraction is dropped.\<close>

definition ToIntegerOrInfinity :: "rat \<Rightarrow> int" where
  "ToIntegerOrInfinity x = (if 0 \<le> x then \<lfloor>x\<rfloor> else \<lceil>x\<rceil>)"

text \<open>
  The server's time zone is not in the program: it is the argument \<open>tz\<close>, which gives
  the zone's offset from UTC in milliseconds, for a time value in UTC and for one in
  local time (the two arguments of ECMAScript's \<^verbatim>\<open>LocalTZA\<close>).
\<close>

record zone =
  offset_at_utc :: "int \<Rightarrow> int"
  offset_at_local :: "int \<Rightarrow> int"

definition LocalTime :: "zone \<Rightarrow> int \<Rightarrow> int" where
  "LocalTime tz t = t + offset_at_utc tz t"

definition UTC :: "zone \<Rightarrow> int \<Rightarrow> int" where
  "UTC tz t = t - offset_at_local tz t"

definition getMonth :: "zone \<Rightarrow> int \<Rightarrow> int" where
  "getMonth tz t = MonthFromTime (LocalTime tz t)"

definition setMonth :: "zone \<Rightarrow> int \<Rightarrow> jsnum \<Rightarrow> int option" where
  "setMonth tz t month' =
     (case month' of
        Fin m \<Rightarrow>
          let lt = LocalTime tz t;
              newDate = MakeDate (MakeDay (YearFromTime lt) (ToIntegerOrInfinity m) (DateFromTime lt))
                                 (TimeWithinDay lt)
          in TimeClip (UTC tz newDate)
      | _ \<Rightarrow> None)"

definition toISOString :: "int option \<Rightarrow> js_error + int" where
  "toISOString d = (case d of None \<Rightarrow> Inl RangeError | Some t \<Rightarrow> Inr t)"

section \<open>The document\<close>

text \<open>
  The fields are those the handlers write. A product's name and category, and an
  order's name, phone, product id and serial number, are whatever value the request
  carried; the numbers are finite or \<^verbatim>\<open>null\<close>; a timestamp is a time value.
\<close>

datatype status = PENDING | APPROVED | REJECTED

record product =
  id :: jstring
  name :: jsval
  price :: "rat option"
  warrantyMonths :: "rat option"
  category :: jsval
  stock :: "rat option"
  image :: "jstring option"
  createdAt :: int

record order =
  id :: jstring
  name :: jsval
  phone :: jsval
  productId :: jsval
  quantity :: "rat option"
  serialNumber :: jsval
  status :: status
  createdAt :: int
  approvedAt :: "int option"
  warrantyExpiry :: "int option"
  rejectedAt :: "int option"

record document =
  products :: "product list"
  orders :: "order list"

text \<open>
  The responses that are not a success: 400 and 404 with the handler's message, and
  500 when the handler throws (Express answers an uncaught exception with status 500;
  the handler that adds a product catches it and answers 500 itself).
\<close>

datatype http_error = BadRequest string | NotFound string | InternalError

section \<open>The handlers\<close>

text \<open>
  Each handler takes the document that \<^verbatim>\<open>readDB\<close> returns and gives the response
  together with the document on disk afterwards: the argument itself on every path that
  returns or throws before \<^verbatim>\<open>writeDB\<close>. The clock (\<^verbatim>\<open>new Date()\<close>, a valid time value)
  and the identifier that \<^verbatim>\<open>makeId\<close> draws from the clock and \<^verbatim>\<open>Math.random\<close> are
  arguments.
\<close>

subsection \<open>\<^verbatim>\<open>GET /api/products\<close>\<close>

definition matches_q :: "(jstring \<Rightarrow> jstring) \<Rightarrow> jstring \<Rightarrow> product \<Rightarrow> js_error + bool" where
  "matches_q lower qq p =
     (case lowered lower (product.name p) of
        Inl e \<Rightarrow> Inl e
      | Inr n \<Rightarrow>
          if str_includes n qq then Inr True
          else (case lowered lower (or_empty (category p)) of
                  Inl e \<Rightarrow> Inl e
                | Inr c \<Rightarrow> Inr (str_includes c qq)))"

definition category_is :: "(jstring \<Rightarrow> jstring) \<Rightarrow> jsval \<Rightarrow> product \<Rightarrow> js_error + bool" where
  "category_is lower cat p =
     (case lowered lower (or_empty (category p)) of
        Inl e \<Rightarrow> Inl e
      | Inr c \<Rightarrow> (case lowered lower cat of Inl e \<Rightarrow> Inl e | Inr c' \<Rightarrow> Inr (c = c')))"

definition list_products ::
  "(jstring \<Rightarrow> jstring) \<Rightarrow> document \<Rightarrow> jsval \<Rightarrow> jsval \<Rightarrow> http_error + product list" where
  "list_products lower db q cat =
     (let items = (if truthy q
                   then (case lowered lower q of
                           Inl e \<Rightarrow> Inl e
                         | Inr qq \<Rightarrow> filter_throw (matches_q lower qq) (products db))
                   else Inr (products db));
          items = (case items of
                     Inl e \<Rightarrow> Inl e
                   | Inr ps \<Rightarrow> if truthy cat then filter_throw (category_is lower cat) ps
                              else Inr ps)
      in case items of Inl e \<Rightarrow> Inl InternalError | Inr ps \<Rightarrow> Inr ps)"

subsection \<open>\<^verbatim>\<open>POST /api/admin/product\<close>\<close>



subsection \<open>\<^verbatim>\<open>POST /api/admin/stock\<close>\<close>



subsection \<open>\<^verbatim>\<open>POST /api/orders\<close>\<close>

definition create_order ::
  "document \<Rightarrow> jstring \<Rightarrow> int \<Rightarrow> jsval \<Rightarrow> jsval \<Rightarrow> jsval \<Rightarrow> jsval \<Rightarrow> jsval
     \<Rightarrow> (http_error + order) \<times> document" where
  "create_order db new_id now name' phone' productId' quantity' serialNumber' =
     (if \<not> truthy name' \<or> \<not> truthy phone' \<or> \<not> truthy productId' \<or> \<not> truthy quantity'
      then (Inl (BadRequest ''Missing fields''), db)
      else
        case find (\<lambda>p. JStr (product.id p) = productId') (products db) of
          None \<Rightarrow> (Inl (NotFound ''Product not found''), db)
        | Some product \<Rightarrow>
            (case Number quantity' of
               Inl e \<Rightarrow> (Inl InternalError, db)
             | Inr n \<Rightarrow>
                 if js_lt (Fin (ToNumber (stock product))) n
                 then (Inl (BadRequest ''Not enough stock''), db)
                 else
                   let order = \<lparr>
                         order.id = new_id,
                         order.name = stored name',
                         phone = stored phone',
                         productId = stored productId',
                         quantity = stringify_num n,
                         serialNumber = (if truthy serialNumber' then stored serialNumber'
                                         else JNull),
                         status = PENDING,
                         order.createdAt = now,
                         approvedAt = None,
                         warrantyExpiry = None,
                         rejectedAt = None \<rparr>
                   in (Inr order, db\<lparr>orders := orders db @ [order]\<rparr>)))"

subsection \<open>\<^verbatim>\<open>POST /api/admin/orders/:id/approve\<close>\<close>

text \<open>
  The expiry is computed, and printed with \<^verbatim>\<open>toISOString\<close>, after the stock has been
  reduced in memory and before anything is written: when the date is out of range the
  handler throws there, and the document on disk stays as it was.
\<close>

definition warranty_expiry :: "zone \<Rightarrow> product \<Rightarrow> int \<Rightarrow> js_error + int option" where
  "warranty_expiry tz product approvedAt' =
     (case warrantyMonths product of
        None \<Rightarrow> Inr None
      | Some wm \<Rightarrow>
          if wm \<noteq> 0 \<and> 0 < wm
          then (case toISOString
                       (setMonth tz approvedAt'
                          (js_add (Fin (of_int (getMonth tz approvedAt'))) (Fin wm))) of
                  Inl e \<Rightarrow> Inl e
                | Inr t \<Rightarrow> Inr (Some t))
          else Inr None)"

definition approve ::
  "zone \<Rightarrow> document \<Rightarrow> int \<Rightarrow> jstring \<Rightarrow> (http_error + order) \<times> document" where
  "approve tz db now orderId =
     (case find (\<lambda>x. order.id x = orderId) (orders db) of
        None \<Rightarrow> (Inl (NotFound ''Order not found''), db)
      | Some order \<Rightarrow>
          if status order \<noteq> PENDING then (Inl (BadRequest ''Order not pending''), db)
          else
            case find (\<lambda>p. JStr (product.id p) = productId order) (products db) of
              None \<Rightarrow> (Inl (NotFound ''Product not found for order''), db)
            | Some product \<Rightarrow>
                if or_zero (stock product) < ToNumber (quantity order)
                then (Inl (BadRequest ''Insufficient stock''), db)
                else
                  (case warranty_expiry tz product now of
                     Inl e \<Rightarrow> (Inl InternalError, db)
                   | Inr expiry \<Rightarrow>
                       let reduce = (\<lambda>p. p\<lparr>stock :=
                                      stringify_num (js_sub (Fin (ToNumber (stock p)))
                                                            (Fin (ToNumber (quantity order))))\<rparr>);
                           stamp = (\<lambda>x. x\<lparr>status := APPROVED,
                                           approvedAt := Some now,
                                           warrantyExpiry := expiry\<rparr>)
                       in (Inr (stamp order),
                           db\<lparr>products := update_first
                                            (\<lambda>p. JStr (product.id p) = productId order) reduce
                                            (products db),
                              orders := update_first (\<lambda>x. order.id x = orderId) stamp
                                          (orders db)\<rparr>)))"

subsection \<open>\<^verbatim>\<open>POST /api/admin/orders/:id/reject\<close>\<close>

definition reject ::
  "document \<Rightarrow> int \<Rightarrow> jstring \<Rightarrow> (http_error + order) \<times> document" where
  "reject db now orderId =
     (case find (\<lambda>x. order.id x = orderId) (orders db) of
        None \<Rightarrow> (Inl (NotFound ''Order not found''), db)
      | Some order \<Rightarrow>
          let stamp = (\<lambda>x. x\<lparr>status := REJECTED, rejectedAt := Some now\<rparr>)
          in (Inr (stamp order),
              db\<lparr>orders := update_first (\<lambda>x. order.id x = orderId) stamp (orders db)\<rparr>))"

subsection \<open>\<^verbatim>\<open>GET /api/search\<close>\<close>

text \<open>The response is the array \<^verbatim>\<open>[]\<close> or an object with the two lists.\<close>

datatype search_result = EmptyArray | Hits "product list" "order list"

definition includes_lowered ::
  "(jstring \<Rightarrow> jstring) \<Rightarrow> jstring \<Rightarrow> jsval \<Rightarrow> js_error + bool" where
  "includes_lowered lower qq v =
     (if truthy v
      then (case lowered lower v of Inl e \<Rightarrow> Inl e | Inr n \<Rightarrow> Inr (str_includes n qq))
      else Inr False)"

definition matches_order :: "(jstring \<Rightarrow> jstring) \<Rightarrow> jstring \<Rightarrow> order \<Rightarrow> js_error + bool" where
  "matches_order lower qq x =
     (case includes_lowered lower qq (order.name x) of
        Inl e \<Rightarrow> Inl e
      | Inr b \<Rightarrow> if b then Inr True else includes_lowered lower qq (serialNumber x))"

definition search ::
  "(jstring \<Rightarrow> jstring) \<Rightarrow> document \<Rightarrow> jsval \<Rightarrow> http_error + search_result" where
  "search lower db q =
     (if \<not> truthy q then Inr EmptyArray
      else
        case lowered lower q of
          Inl e \<Rightarrow> Inl InternalError
        | Inr qq \<Rightarrow>
            (case filter_throw (matches_q lower qq) (products db) of
               Inl e \<Rightarrow> Inl InternalError
             | Inr ps \<Rightarrow>
                 (case filter_throw (matches_order lower qq) (orders db) of
                    Inl e \<Rightarrow> Inl InternalError
                  | Inr os \<Rightarrow> Inr (Hits ps os))))"

section \<open>The specification's notions\<close>

text \<open>
  The specification speaks of a field that is missing, of stock that is never negative,
  of a text that contains, or equals, another one without regard to case, and of a
  date advanced by calendar months with rollover. These are stated here in its words,
  to be compared with what the handlers compute.
\<close>

text \<open>
  A field is missing when the request does not carry it, or carries \<^verbatim>\<open>null\<close>, \<^verbatim>\<open>false\<close>,
  the empty string or a number that reads as zero.
\<close>

definition missing :: "jsval \<Rightarrow> bool" where
  "missing v =
     (case v of
        JUndefined \<Rightarrow> True
      | JNull \<Rightarrow> True
      | JBool b \<Rightarrow> \<not> b
      | JNum x \<Rightarrow> round_double x = Fin 0
      | JStr s \<Rightarrow> length s = 0
      | JArr xs \<Rightarrow> False
      | JObj kvs \<Rightarrow> False)"

text \<open>
  No product has a negative stock. A stock stored as \<^verbatim>\<open>null\<close> is read as 0 by every
  handler, and counts as 0 here.
\<close>

definition stock_value :: "product \<Rightarrow> rat" where
  "stock_value p = (case stock p of None \<Rightarrow> 0 | Some v \<Rightarrow> v)"


section \<open>Example documents\<close>

text \<open>
  Two zones: UTC, and New York in 2024 (five hours behind UTC, four between 10 March
  and 3 November). The times are 2024-01-31, 2024-02-01 and 2024-05-01 at
  00:00:00Z, and 2024-04-30 at 23:00:00Z.
\<close>

definition utc :: zone where
  "utc = \<lparr>offset_at_utc = (\<lambda>t. 0), offset_at_local = (\<lambda>t. 0)\<rparr>"

definition new_york :: zone where
  "new_york =
     \<lparr>offset_at_utc = (\<lambda>t. if 1710054000000 \<le> t \<and> t < 1730613600000
                            then - 14400000 else - 18000000),
      offset_at_local = (\<lambda>t. if 1710036000000 \<le> t \<and> t < 1730599200000
                              then - 14400000 else - 18000000)\<rparr>"

definition jan31 :: int where
  "jan31 = 1706659200000"

definition feb01 :: int where
  "feb01 = 1706745600000"

definition may01 :: int where
  "may01 = 1714521600000"

definition apr30_23h :: int where
  "apr30_23h = 1714518000000"


definition widget :: product where
  "widget = \<lparr>product.id = js ''prod_1'', product.name = JStr (js ''Widget''),
             price = Some 10, warrantyMonths = Some 3, category = JStr (js ''Gadgets''),
             stock = Some 5, image = None, product.createdAt = jan31\<rparr>"

definition cable :: product where
  "cable = \<lparr>product.id = js ''prod_2'', product.name = JStr (js ''USB Cable''),
            price = Some 3, warrantyMonths = Some 0, category = JStr (js ''Accessories''),
            stock = Some 1, image = None, product.createdAt = jan31\<rparr>"

definition pending_order :: order where
  "pending_order = \<lparr>order.id = js ''ord_1'', order.name = JStr (js ''Asha''),
                    phone = JStr (js ''555''), productId = JStr (js ''prod_1''),
                    quantity = Some 2, serialNumber = JStr (js ''SN-42''),
                    status = PENDING, order.createdAt = jan31, approvedAt = None,
                    warrantyExpiry = None, rejectedAt = None\<rparr>"

definition big_order :: order where
  "big_order = \<lparr>order.id = js ''ord_2'', order.name = JStr (js ''Ravi''),
                phone = JStr (js ''556''), productId = JStr (js ''prod_2''),
                quantity = Some 4, serialNumber = JNull,
                status = PENDING, order.createdAt = jan31, approvedAt = None,
                warrantyExpiry = None, rejectedAt = None\<rparr>"

definition shop :: document where
  "shop = \<lparr>products = [widget, cable], orders = [pending_order, big_order]\<rparr>"

definition approved_order :: order where
  "approved_order = pending_order\<lparr>status := APPROVED, approvedAt := Some jan31,
                                   warrantyExpiry := Some may01\<rparr>"

definition approved_shop :: document where
  "approved_shop = \<lparr>products = [widget\<lparr>stock := Some 3\<rparr>, cable],
                     orders = [approved_order, big_order]\<rparr>"




text \<open>A product whose warranty runs past the end of the range of dates.\<close>

definition heirloom :: product where
  "heirloom = \<lparr>product.id = js ''prod_3'', product.name = JStr (js ''Heirloom''),
               price = Some 10, warrantyMonths = Some 4000000, category = JStr (js ''General''),
               stock = Some 5, image = None, product.createdAt = jan31\<rparr>"

definition heirloom_shop :: document where
  "heirloom_shop = \<lparr>products = [heirloom], orders = []\<rparr>"

definition negative_order :: order where
  "negative_order = \<lparr>order.id = js ''ord_7'', order.name = JStr (js ''Mira''),
                     phone = JStr (js ''557''), productId = JStr (js ''prod_3''),
                     quantity = Some (- 3), serialNumber = JNull,
                     status = PENDING, order.createdAt = jan31, approvedAt = None,
                     warrantyExpiry = None, rejectedAt = None\<rparr>"

definition unbounded_order :: order where
  "unbounded_order = \<lparr>order.id = js ''ord_8'', order.name = JStr (js ''Mira''),
                      phone = JStr (js ''557''), productId = JStr (js ''prod_2''),
                      quantity = None, serialNumber = JNull,
                      status = PENDING, order.createdAt = jan31, approvedAt = None,
                      warrantyExpiry = None, rejectedAt = None\<rparr>"

section \<open>Finding and updating the first match\<close>

lemma find_update_first:
  "(\<And>x. P (f x) = P x) \<Longrightarrow> find P (update_first P f xs) = map_option f (find P xs)"
  by (induction xs) auto

lemma update_first_list_update:
  "find P xs = Some x \<Longrightarrow>
     \<exists>i < length xs. xs ! i = x \<and> (\<forall>j < i. \<not> P (xs ! j)) \<and> update_first P f xs = xs[i := f x]"
proof (induction xs)
  case Nil
  then show ?case by simp
next
  case (Cons a xs)
  show ?case
  proof (cases "P a")
    case True
    with Cons.prems have "a = x" by simp
    with True show ?thesis by (intro exI[of _ 0]) simp
  next
    case False
    with Cons.prems have "find P xs = Some x" by simp
    from Cons.IH[OF this] obtain i where i: "i < length xs" "xs ! i = x"
      "\<forall>j < i. \<not> P (xs ! j)" "update_first P f xs = xs[i := f x]" by blast
    have "\<forall>j < Suc i. \<not> P ((a # xs) ! j)"
      using False i(3) by (auto simp: nth_Cons split: nat.splits)
    with i False show ?thesis by (intro exI[of _ "Suc i"]) simp
  qed
qed

section \<open>Missing fields\<close>

lemma missing_iff: "missing v \<longleftrightarrow> \<not> truthy v"
  by (cases v) (simp_all add: missing_def)

section \<open>Rounding keeps the sign\<close>




lemma js_sub_Fin: "js_sub (Fin a) (Fin b) = round_double (a - b)"
  by (simp add: js_sub_def)

section \<open>Approval\<close>

text \<open>What a successful approval has checked and written.\<close>

lemma approve_succeeds_shape:
  assumes ok: "approve tz db now oid = (Inr r, db')"
      and ord: "find (\<lambda>x. order.id x = oid) (orders db) = Some ord"
      and pr: "find (\<lambda>p. JStr (product.id p) = productId ord) (products db) = Some pr"
  shows "status ord = PENDING"
    and "\<not> or_zero (stock pr) < ToNumber (quantity ord)"
    and "\<exists>expiry. warranty_expiry tz pr now = Inr expiry
           \<and> r = ord\<lparr>status := APPROVED, approvedAt := Some now, warrantyExpiry := expiry\<rparr>
           \<and> orders db' = update_first (\<lambda>x. order.id x = oid)
                 (\<lambda>x. x\<lparr>status := APPROVED, approvedAt := Some now, warrantyExpiry := expiry\<rparr>)
                 (orders db)"
    and "products db' = update_first (\<lambda>p. JStr (product.id p) = productId ord)
           (\<lambda>p. p\<lparr>stock := stringify_num (round_double (ToNumber (stock p) - ToNumber (quantity ord)))\<rparr>)
           (products db)"
    and "find (\<lambda>x. order.id x = oid) (orders db') = Some r"
    and "status r = APPROVED"
    and "approvedAt r = Some now"
proof -
  from ok ord pr show pend: "status ord = PENDING"
    by (auto simp: approve_def Let_def split: if_splits sum.splits)
  from ok ord pr show enough: "\<not> or_zero (stock pr) < ToNumber (quantity ord)"
    by (auto simp: approve_def Let_def split: if_splits sum.splits)
  from ok ord pr pend enough
  show ex: "\<exists>expiry. warranty_expiry tz pr now = Inr expiry
           \<and> r = ord\<lparr>status := APPROVED, approvedAt := Some now, warrantyExpiry := expiry\<rparr>
           \<and> orders db' = update_first (\<lambda>x. order.id x = oid)
                 (\<lambda>x. x\<lparr>status := APPROVED, approvedAt := Some now, warrantyExpiry := expiry\<rparr>)
                 (orders db)"
    by (cases "warranty_expiry tz pr now") (auto simp: approve_def Let_def)
  from ok ord pr pend enough
  show "products db' = update_first (\<lambda>p. JStr (product.id p) = productId ord)
           (\<lambda>p. p\<lparr>stock := stringify_num (round_double (ToNumber (stock p) - ToNumber (quantity ord)))\<rparr>)
           (products db)"
    by (cases "warranty_expiry tz pr now") (auto simp: approve_def Let_def js_sub_Fin)
  from ex obtain expiry where
    r: "r = ord\<lparr>status := APPROVED, approvedAt := Some now, warrantyExpiry := expiry\<rparr>"
    and o': "orders db' = update_first (\<lambda>x. order.id x = oid)
                 (\<lambda>x. x\<lparr>status := APPROVED, approvedAt := Some now, warrantyExpiry := expiry\<rparr>)
                 (orders db)"
    by blast
  show "find (\<lambda>x. order.id x = oid) (orders db') = Some r"
    using ord by (simp add: o' r find_update_first)
  show "status r = APPROVED" by (simp add: r)
  show "approvedAt r = Some now" by (simp add: r)
qed

text \<open>An approval that succeeds has found its order and the order's product.\<close>

lemma approve_succeeds_found:
  assumes ok: "approve tz db now oid = (Inr r, db')"
  obtains ord pr where "find (\<lambda>x. order.id x = oid) (orders db) = Some ord"
    and "find (\<lambda>p. JStr (product.id p) = productId ord) (products db) = Some pr"
proof -
  from ok obtain ord where ord: "find (\<lambda>x. order.id x = oid) (orders db) = Some ord"
    by (cases "find (\<lambda>x. order.id x = oid) (orders db)") (auto simp: approve_def)
  from ok ord obtain pr
    where "find (\<lambda>p. JStr (product.id p) = productId ord) (products db) = Some pr"
    by (cases "find (\<lambda>p. JStr (product.id p) = productId ord) (products db)")
       (auto simp: approve_def split: if_splits)
  with ord that show ?thesis by blast
qed



text \<open>
  C3: approving an order whose status is not PENDING fails with BadRequest and leaves
  the document unchanged; so after an approval has succeeded, approving the same order
  again fails.
\<close>

theorem approve_not_pending:
  "(\<forall>ord. find (\<lambda>x. order.id x = oid) (orders db) = Some ord \<and> status ord \<noteq> PENDING \<longrightarrow>
       approve tz db now oid = (Inl (BadRequest ''Order not pending''), db))
   \<and> (\<forall>r db'. approve tz db now oid = (Inr r, db') \<longrightarrow>
         approve tz' db' now' oid = (Inl (BadRequest ''Order not pending''), db'))"
proof (intro conjI allI impI)
  fix ord
  assume "find (\<lambda>x. order.id x = oid) (orders db) = Some ord \<and> status ord \<noteq> PENDING"
  then show "approve tz db now oid = (Inl (BadRequest ''Order not pending''), db)"
    by (simp add: approve_def)
next
  fix r db'
  assume ok: "approve tz db now oid = (Inr r, db')"
  from approve_succeeds_found [OF ok] obtain ord pr
    where ord: "find (\<lambda>x. order.id x = oid) (orders db) = Some ord"
      and pr: "find (\<lambda>p. JStr (product.id p) = productId ord) (products db) = Some pr"
    by blast
  from approve_succeeds_shape [OF ok ord pr]
  have "find (\<lambda>x. order.id x = oid) (orders db') = Some r" and "status r = APPROVED"
    by simp_all
  then show "approve tz' db' now' oid = (Inl (BadRequest ''Order not pending''), db')"
    by (simp add: approve_def)
qed

theorem approve_not_pending_witness:
  "\<exists>r db'. approve utc shop feb01 (js ''ord_1'') = (Inr r, db')
      \<and> find (\<lambda>x. order.id x = js ''ord_1'') (orders db') = Some r
      \<and> status r \<noteq> PENDING
      \<and> approve utc db' may01 (js ''ord_1'') = (Inl (BadRequest ''Order not pending''), db')"
proof -
  have o1: "find (\<lambda>x. order.id x = js ''ord_1'') (orders shop) = Some pending_order"
    by code_simp
  have p1: "find (\<lambda>p. JStr (product.id p) = productId pending_order) (products shop) = Some widget"
    by code_simp
  have "fst (approve utc shop feb01 (js ''ord_1''))
          = Inr (pending_order\<lparr>status := APPROVED, approvedAt := Some feb01,
                                warrantyExpiry := Some may01\<rparr>)"
    by code_simp
  then obtain r db' where ok: "approve utc shop feb01 (js ''ord_1'') = (Inr r, db')"
    by (metis prod.collapse)
  from approve_succeeds_shape [OF ok o1 p1]
  have found: "find (\<lambda>x. order.id x = js ''ord_1'') (orders db') = Some r"
    and st: "status r \<noteq> PENDING"
    by simp_all
  from approve_not_pending [of "js ''ord_1''" shop utc feb01 utc may01] ok
  have again: "approve utc db' may01 (js ''ord_1'') = (Inl (BadRequest ''Order not pending''), db')"
    by blast
  from approve_not_pending [of "js ''ord_1''" db' utc may01 utc may01] found st
  have "approve utc db' may01 (js ''ord_1'') = (Inl (BadRequest ''Order not pending''), db')"
    by blast
  with ok found st again show ?thesis by blast
qed

section \<open>Rejection\<close>

text \<open>
  C4: rejecting an order that exists succeeds whatever its status: the order is stored
  as REJECTED with \<open>rejectedAt\<close> set to the time of rejection. The only failure is
  NotFound, when no order has the id.
\<close>

theorem reject_any_status:
  "(find (\<lambda>x. order.id x = oid) (orders db) = None \<longrightarrow>
       reject db now oid = (Inl (NotFound ''Order not found''), db))
   \<and> (\<forall>ord. find (\<lambda>x. order.id x = oid) (orders db) = Some ord \<longrightarrow>
         fst (reject db now oid) = Inr (ord\<lparr>status := REJECTED, rejectedAt := Some now\<rparr>)
         \<and> find (\<lambda>x. order.id x = oid) (orders (snd (reject db now oid)))
             = Some (ord\<lparr>status := REJECTED, rejectedAt := Some now\<rparr>))"
  by (simp add: reject_def find_update_first)

theorem reject_any_status_witness:
  "find (\<lambda>x. order.id x = js ''ord_9'') (orders shop) = None
   \<and> reject shop feb01 (js ''ord_9'') = (Inl (NotFound ''Order not found''), shop)
   \<and> find (\<lambda>x. order.id x = js ''ord_1'') (orders shop) = Some pending_order
   \<and> fst (reject shop jan31 (js ''ord_1''))
       = Inr (pending_order\<lparr>status := REJECTED, rejectedAt := Some jan31\<rparr>)
   \<and> find (\<lambda>x. order.id x = js ''ord_1'') (orders (snd (reject shop jan31 (js ''ord_1''))))
       = Some (pending_order\<lparr>status := REJECTED, rejectedAt := Some jan31\<rparr>)
   \<and> status (pending_order\<lparr>status := REJECTED, rejectedAt := Some jan31\<rparr>) = REJECTED
   \<and> fst (reject (snd (reject shop jan31 (js ''ord_1''))) feb01 (js ''ord_1''))
       = Inr (pending_order\<lparr>status := REJECTED, rejectedAt := Some feb01\<rparr>)"
proof -
  have o9: "find (\<lambda>x. order.id x = js ''ord_9'') (orders shop) = None"
    by code_simp
  have o1: "find (\<lambda>x. order.id x = js ''ord_1'') (orders shop) = Some pending_order"
    by code_simp
  from reject_any_status [of "js ''ord_9''" shop feb01] o9
  have a: "reject shop feb01 (js ''ord_9'') = (Inl (NotFound ''Order not found''), shop)"
    by blast
  from reject_any_status [of "js ''ord_1''" shop jan31] o1
  have b: "fst (reject shop jan31 (js ''ord_1''))
             = Inr (pending_order\<lparr>status := REJECTED, rejectedAt := Some jan31\<rparr>)"
    and c: "find (\<lambda>x. order.id x = js ''ord_1'') (orders (snd (reject shop jan31 (js ''ord_1''))))
             = Some (pending_order\<lparr>status := REJECTED, rejectedAt := Some jan31\<rparr>)"
    by blast+
  from reject_any_status [of "js ''ord_1''" "snd (reject shop jan31 (js ''ord_1''))" feb01] c
  have d: "fst (reject (snd (reject shop jan31 (js ''ord_1''))) feb01 (js ''ord_1''))
             = Inr (pending_order\<lparr>status := REJECTED, rejectedAt := Some feb01\<rparr>)"
    by simp
  from o9 a o1 b c d show ?thesis by simp
qed

text \<open>
  C10: rejecting an order writes the status and \<open>rejectedAt\<close> of that one order, the
  first with the id. The products are as before, every other order is as before, and
  the order's other fields, \<open>approvedAt\<close> and \<open>warrantyExpiry\<close> among them, keep their
  values: rejecting an approved order gives no stock back.
\<close>

theorem reject_frame:
  assumes "find (\<lambda>x. order.id x = oid) (orders db) = Some ord"
  shows "products (snd (reject db now oid)) = products db
       \<and> (\<exists>i < length (orders db).
             orders db ! i = ord
             \<and> orders (snd (reject db now oid))
                 = (orders db)[i := ord\<lparr>status := REJECTED, rejectedAt := Some now\<rparr>]
             \<and> (\<forall>j < length (orders db). j \<noteq> i \<longrightarrow>
                   orders (snd (reject db now oid)) ! j = orders db ! j))
       \<and> approvedAt (ord\<lparr>status := REJECTED, rejectedAt := Some now\<rparr>) = approvedAt ord
       \<and> warrantyExpiry (ord\<lparr>status := REJECTED, rejectedAt := Some now\<rparr>) = warrantyExpiry ord
       \<and> quantity (ord\<lparr>status := REJECTED, rejectedAt := Some now\<rparr>) = quantity ord
       \<and> productId (ord\<lparr>status := REJECTED, rejectedAt := Some now\<rparr>) = productId ord"
proof -
  let ?stamp = "\<lambda>x. x\<lparr>status := REJECTED, rejectedAt := Some now\<rparr>"
  have db': "snd (reject db now oid)
               = db\<lparr>orders := update_first (\<lambda>x. order.id x = oid) ?stamp (orders db)\<rparr>"
    using assms by (simp add: reject_def)
  from update_first_list_update [OF assms, of ?stamp]
  obtain i where i: "i < length (orders db)" "orders db ! i = ord"
    "update_first (\<lambda>x. order.id x = oid) ?stamp (orders db) = (orders db)[i := ?stamp ord]"
    by blast
  have "\<forall>j < length (orders db). j \<noteq> i \<longrightarrow>
          orders (snd (reject db now oid)) ! j = orders db ! j"
    by (simp add: db' i(3))
  with i have "\<exists>i < length (orders db).
             orders db ! i = ord
             \<and> orders (snd (reject db now oid)) = (orders db)[i := ?stamp ord]
             \<and> (\<forall>j < length (orders db). j \<noteq> i \<longrightarrow>
                   orders (snd (reject db now oid)) ! j = orders db ! j)"
    by (intro exI[of _ i]) (simp add: db')
  moreover have "products (snd (reject db now oid)) = products db"
    by (simp add: db')
  ultimately show ?thesis by simp
qed

theorem reject_frame_witness:
  "approve utc shop jan31 (js ''ord_1'') = (Inr approved_order, approved_shop)
   \<and> find (\<lambda>x. order.id x = js ''ord_1'') (orders approved_shop) = Some approved_order
   \<and> products (snd (reject approved_shop may01 (js ''ord_1''))) = [widget\<lparr>stock := Some 3\<rparr>, cable]
   \<and> orders (snd (reject approved_shop may01 (js ''ord_1'')))
       = [approved_order\<lparr>status := REJECTED, rejectedAt := Some may01\<rparr>, big_order]
   \<and> approvedAt (approved_order\<lparr>status := REJECTED, rejectedAt := Some may01\<rparr>) = Some jan31
   \<and> warrantyExpiry (approved_order\<lparr>status := REJECTED, rejectedAt := Some may01\<rparr>) = Some may01"
proof -
  have ok: "approve utc shop jan31 (js ''ord_1'') = (Inr approved_order, approved_shop)"
    by code_simp
  have o1: "find (\<lambda>x. order.id x = js ''ord_1'') (orders approved_shop) = Some approved_order"
    by code_simp
  from reject_frame [OF o1, of may01]
  obtain i where i: "i < length (orders approved_shop)" "orders approved_shop ! i = approved_order"
    and upd: "orders (snd (reject approved_shop may01 (js ''ord_1'')))
                = (orders approved_shop)[i := approved_order\<lparr>status := REJECTED, rejectedAt := Some may01\<rparr>]"
    and prods: "products (snd (reject approved_shop may01 (js ''ord_1''))) = products approved_shop"
    by blast
  have "approved_order \<noteq> big_order"
    by (simp add: approved_order_def big_order_def pending_order_def)
  with i have "i = 0"
    by (cases i) (auto simp: approved_shop_def)
  with upd have "orders (snd (reject approved_shop may01 (js ''ord_1'')))
       = [approved_order\<lparr>status := REJECTED, rejectedAt := Some may01\<rparr>, big_order]"
    by (simp add: approved_shop_def)
  moreover have "products (snd (reject approved_shop may01 (js ''ord_1'')))
                   = [widget\<lparr>stock := Some 3\<rparr>, cable]"
    using prods by (simp add: approved_shop_def)
  moreover have "approvedAt (approved_order\<lparr>status := REJECTED, rejectedAt := Some may01\<rparr>) = Some jan31"
    "warrantyExpiry (approved_order\<lparr>status := REJECTED, rejectedAt := Some may01\<rparr>) = Some may01"
    by (simp_all add: approved_order_def)
  ultimately show ?thesis using ok o1 by simp
qed

section \<open>Placing an order\<close>

text \<open>
  C6 as stated fails: a request can have a fifth outcome. A quantity that is an object
  with a key \<^verbatim>\<open>toString\<close> is present, and the product exists, but \<^verbatim>\<open>Number(quantity)\<close>
  throws: the answer is 500, neither of the failures named nor an order.
\<close>

theorem create_order_throws_counterexample:
  "create_order shop (js ''ord_3'') feb01 (JStr (js ''Mira'')) (JStr (js ''557''))
       (JStr (js ''prod_1'')) (JObj [(js ''toString'', JNum 1)]) JUndefined
     = (Inl InternalError, shop)"
  by code_simp

text \<open>
  C6, as amended: the outcomes of placing an order, in the order the handler reaches
  them. A missing field is BadRequest; otherwise an unknown product is NotFound;
  otherwise a quantity whose conversion to a number throws is answered 500; otherwise a
  stock (\<^verbatim>\<open>null\<close> as 0) less than the quantity is BadRequest. Each of these leaves the
  document as it was. Otherwise a PENDING order is appended with the quantity as it
  was converted (\<^verbatim>\<open>null\<close> when that is not a finite number), and the products, their
  stock included, are untouched.
\<close>

theorem create_order_outcomes:
  "(missing name' \<or> missing phone' \<or> missing pid \<or> missing quantity' \<longrightarrow>
      create_order db new_id now name' phone' pid quantity' serial'
        = (Inl (BadRequest ''Missing fields''), db))
   \<and> (\<not> missing name' \<and> \<not> missing phone' \<and> \<not> missing pid \<and> \<not> missing quantity' \<longrightarrow>
        (find (\<lambda>p. JStr (product.id p) = pid) (products db) = None \<longrightarrow>
           create_order db new_id now name' phone' pid quantity' serial'
             = (Inl (NotFound ''Product not found''), db))
        \<and> (\<forall>p. find (\<lambda>p. JStr (product.id p) = pid) (products db) = Some p \<longrightarrow>
              (Number quantity' = Inl TypeError \<longrightarrow>
                 create_order db new_id now name' phone' pid quantity' serial'
                   = (Inl InternalError, db))
              \<and> (\<forall>n. Number quantity' = Inr n
                        \<and> (n = PInf \<or> (\<exists>q. n = Fin q \<and> stock_value p < q)) \<longrightarrow>
                    create_order db new_id now name' phone' pid quantity' serial'
                      = (Inl (BadRequest ''Not enough stock''), db))
              \<and> (\<forall>n. Number quantity' = Inr n
                        \<and> (n = NaN \<or> n = NInf \<or> (\<exists>q. n = Fin q \<and> q \<le> stock_value p)) \<longrightarrow>
                    (\<exists>ord. create_order db new_id now name' phone' pid quantity' serial'
                             = (Inr ord, db\<lparr>orders := orders db @ [ord]\<rparr>)
                       \<and> status ord = PENDING
                       \<and> order.id ord = new_id
                       \<and> order.name ord = stored name'
                       \<and> phone ord = stored phone'
                       \<and> productId ord = JStr (product.id p)
                       \<and> quantity ord = (case n of Fin q \<Rightarrow> Some q | _ \<Rightarrow> None)
                       \<and> approvedAt ord = None \<and> rejectedAt ord = None
                       \<and> products (db\<lparr>orders := orders db @ [ord]\<rparr>) = products db))))"
proof (intro conjI impI allI)
  assume "missing name' \<or> missing phone' \<or> missing pid \<or> missing quantity'"
  then show "create_order db new_id now name' phone' pid quantity' serial'
        = (Inl (BadRequest ''Missing fields''), db)"
    by (auto simp: create_order_def missing_iff)
next
  assume "\<not> missing name' \<and> \<not> missing phone' \<and> \<not> missing pid \<and> \<not> missing quantity'"
    and "find (\<lambda>p. JStr (product.id p) = pid) (products db) = None"
  then show "create_order db new_id now name' phone' pid quantity' serial'
             = (Inl (NotFound ''Product not found''), db)"
    by (simp add: create_order_def missing_iff)
next
  fix p
  assume "\<not> missing name' \<and> \<not> missing phone' \<and> \<not> missing pid \<and> \<not> missing quantity'"
    and "find (\<lambda>p. JStr (product.id p) = pid) (products db) = Some p"
    and "Number quantity' = Inl TypeError"
  then show "create_order db new_id now name' phone' pid quantity' serial'
                   = (Inl InternalError, db)"
    by (simp add: create_order_def missing_iff)
next
  fix p n
  assume t: "\<not> missing name' \<and> \<not> missing phone' \<and> \<not> missing pid \<and> \<not> missing quantity'"
    and p: "find (\<lambda>p. JStr (product.id p) = pid) (products db) = Some p"
    and n: "Number quantity' = Inr n \<and> (n = PInf \<or> (\<exists>q. n = Fin q \<and> stock_value p < q))"
  have sv: "ToNumber (stock p) = stock_value p"
    by (cases "stock p") (simp_all add: stock_value_def)
  from n have "js_lt (Fin (ToNumber (stock p))) n"
    by (auto simp: sv)
  with t p n show "create_order db new_id now name' phone' pid quantity' serial'
                      = (Inl (BadRequest ''Not enough stock''), db)"
    by (simp add: create_order_def missing_iff)
next
  fix p n
  assume t: "\<not> missing name' \<and> \<not> missing phone' \<and> \<not> missing pid \<and> \<not> missing quantity'"
    and p: "find (\<lambda>p. JStr (product.id p) = pid) (products db) = Some p"
    and n: "Number quantity' = Inr n
              \<and> (n = NaN \<or> n = NInf \<or> (\<exists>q. n = Fin q \<and> q \<le> stock_value p))"
  have sv: "ToNumber (stock p) = stock_value p"
    by (cases "stock p") (simp_all add: stock_value_def)
  from n have ge: "\<not> js_lt (Fin (ToNumber (stock p))) n"
    by (auto simp: sv)
  from p have "JStr (product.id p) = pid"
    by (auto dest: find_Some_iff [THEN iffD1])
  then have pid: "stored pid = JStr (product.id p)"
    by auto
  have q: "stringify_num n = (case n of Fin q \<Rightarrow> Some q | _ \<Rightarrow> None)"
    by (cases n) simp_all
  from t p n ge show "\<exists>ord. create_order db new_id now name' phone' pid quantity' serial'
                             = (Inr ord, db\<lparr>orders := orders db @ [ord]\<rparr>)
                       \<and> status ord = PENDING
                       \<and> order.id ord = new_id
                       \<and> order.name ord = stored name'
                       \<and> phone ord = stored phone'
                       \<and> productId ord = JStr (product.id p)
                       \<and> quantity ord = (case n of Fin q \<Rightarrow> Some q | _ \<Rightarrow> None)
                       \<and> approvedAt ord = None \<and> rejectedAt ord = None
                       \<and> products (db\<lparr>orders := orders db @ [ord]\<rparr>) = products db"
    by (simp add: create_order_def missing_iff Let_def pid q)
qed

theorem create_order_outcomes_witness:
  "missing (JNum 0)
   \<and> create_order shop (js ''ord_3'') feb01 (JStr (js ''Mira'')) (JStr (js ''557''))
         (JStr (js ''prod_1'')) (JNum 0) JUndefined
       = (Inl (BadRequest ''Missing fields''), shop)
   \<and> find (\<lambda>p. JStr (product.id p) = JStr (js ''prod_9'')) (products shop) = None
   \<and> create_order shop (js ''ord_3'') feb01 (JStr (js ''Mira'')) (JStr (js ''557''))
         (JStr (js ''prod_9'')) (JStr (js ''2'')) JUndefined
       = (Inl (NotFound ''Product not found''), shop)
   \<and> Number (JObj [(js ''toString'', JNum 1)]) = Inl TypeError
   \<and> create_order shop (js ''ord_3'') feb01 (JStr (js ''Mira'')) (JStr (js ''557''))
         (JStr (js ''prod_1'')) (JObj [(js ''toString'', JNum 1)]) JUndefined
       = (Inl InternalError, shop)
   \<and> find (\<lambda>p. JStr (product.id p) = JStr (js ''prod_2'')) (products shop) = Some cable
   \<and> Number (JStr (js ''2.0'')) = Inr (Fin 2) \<and> stock_value cable < 2
   \<and> create_order shop (js ''ord_3'') feb01 (JStr (js ''Mira'')) (JStr (js ''557''))
         (JStr (js ''prod_2'')) (JStr (js ''2.0'')) JUndefined
       = (Inl (BadRequest ''Not enough stock''), shop)
   \<and> find (\<lambda>p. JStr (product.id p) = JStr (js ''prod_1'')) (products shop) = Some widget
   \<and> Number (JStr (js '' 4 '')) = Inr (Fin 4) \<and> 4 \<le> stock_value widget
   \<and> (\<exists>ord. create_order shop (js ''ord_3'') feb01 (JStr (js ''Mira'')) (JStr (js ''557''))
                 (JStr (js ''prod_1'')) (JStr (js '' 4 '')) JUndefined
                = (Inr ord, shop\<lparr>orders := orders shop @ [ord]\<rparr>)
          \<and> status ord = PENDING \<and> quantity ord = Some 4
          \<and> products (shop\<lparr>orders := orders shop @ [ord]\<rparr>) = products shop)
   \<and> Number (JStr (js ''abc'')) = Inr NaN
   \<and> (\<exists>ord. create_order shop (js ''ord_3'') feb01 (JStr (js ''Mira'')) (JStr (js ''557''))
                 (JStr (js ''prod_1'')) (JStr (js ''abc'')) JUndefined
                = (Inr ord, shop\<lparr>orders := orders shop @ [ord]\<rparr>)
          \<and> status ord = PENDING \<and> quantity ord = None)
   \<and> Number (JStr (js ''1e2'')) = Inr (Fin 100)
   \<and> Number (JStr (js ''0x10'')) = Inr (Fin 16)
   \<and> Number (JStr (js ''-3.5'')) = Inr (Fin (- 7 / 2))
   \<and> Number (JArr [JStr (js ''7'')]) = Inr (Fin 7)"
proof -
  have t: "\<not> missing (JStr (js ''Mira''))" "\<not> missing (JStr (js ''557''))"
    "\<not> missing (JStr (js ''prod_1''))" "\<not> missing (JStr (js ''prod_2''))"
    "\<not> missing (JStr (js ''prod_9''))" "\<not> missing (JStr (js ''2''))"
    "\<not> missing (JStr (js ''2.0''))" "\<not> missing (JStr (js '' 4 ''))"
    "\<not> missing (JStr (js ''abc''))" "\<not> missing (JObj [(js ''toString'', JNum 1)])"
    by (simp_all add: missing_def js_def)
  have m0: "missing (JNum 0)"
    by code_simp
  have p9: "find (\<lambda>p. JStr (product.id p) = JStr (js ''prod_9'')) (products shop) = None"
    by code_simp
  have p2: "find (\<lambda>p. JStr (product.id p) = JStr (js ''prod_2'')) (products shop) = Some cable"
    by code_simp
  have p1: "find (\<lambda>p. JStr (product.id p) = JStr (js ''prod_1'')) (products shop) = Some widget"
    by code_simp
  have thr: "Number (JObj [(js ''toString'', JNum 1)]) = Inl TypeError"
    by code_simp
  have n2: "Number (JStr (js ''2.0'')) = Inr (Fin 2)" and n4: "Number (JStr (js '' 4 '')) = Inr (Fin 4)"
    and nan: "Number (JStr (js ''abc'')) = Inr NaN"
    and more: "Number (JStr (js ''1e2'')) = Inr (Fin 100)" "Number (JStr (js ''0x10'')) = Inr (Fin 16)"
      "Number (JStr (js ''-3.5'')) = Inr (Fin (- 7 / 2))" "Number (JArr [JStr (js ''7'')]) = Inr (Fin 7)"
    by code_simp+
  have less: "stock_value cable < 2" and enough: "4 \<le> stock_value widget"
    by (simp_all add: stock_value_def cable_def widget_def)
  from create_order_outcomes [where name' = "JStr (js ''Mira'')" and phone' = "JStr (js ''557'')"
      and pid = "JStr (js ''prod_1'')" and quantity' = "JNum 0" and db = shop
      and new_id = "js ''ord_3''" and now = feb01 and serial' = JUndefined] m0
  have a: "create_order shop (js ''ord_3'') feb01 (JStr (js ''Mira'')) (JStr (js ''557''))
         (JStr (js ''prod_1'')) (JNum 0) JUndefined
       = (Inl (BadRequest ''Missing fields''), shop)"
    by blast
  from create_order_outcomes [where name' = "JStr (js ''Mira'')" and phone' = "JStr (js ''557'')"
      and pid = "JStr (js ''prod_9'')" and quantity' = "JStr (js ''2'')" and db = shop
      and new_id = "js ''ord_3''" and now = feb01 and serial' = JUndefined] t p9
  have b: "create_order shop (js ''ord_3'') feb01 (JStr (js ''Mira'')) (JStr (js ''557''))
         (JStr (js ''prod_9'')) (JStr (js ''2'')) JUndefined
       = (Inl (NotFound ''Product not found''), shop)"
    by blast
  from create_order_outcomes [where name' = "JStr (js ''Mira'')" and phone' = "JStr (js ''557'')"
      and pid = "JStr (js ''prod_1'')" and quantity' = "JObj [(js ''toString'', JNum 1)]"
      and db = shop and new_id = "js ''ord_3''" and now = feb01 and serial' = JUndefined] t p1 thr
  have c: "create_order shop (js ''ord_3'') feb01 (JStr (js ''Mira'')) (JStr (js ''557''))
         (JStr (js ''prod_1'')) (JObj [(js ''toString'', JNum 1)]) JUndefined
       = (Inl InternalError, shop)"
    by blast
  from create_order_outcomes [where name' = "JStr (js ''Mira'')" and phone' = "JStr (js ''557'')"
      and pid = "JStr (js ''prod_2'')" and quantity' = "JStr (js ''2.0'')" and db = shop
      and new_id = "js ''ord_3''" and now = feb01 and serial' = JUndefined] t p2 n2 less
  have d: "create_order shop (js ''ord_3'') feb01 (JStr (js ''Mira'')) (JStr (js ''557''))
         (JStr (js ''prod_2'')) (JStr (js ''2.0'')) JUndefined
       = (Inl (BadRequest ''Not enough stock''), shop)"
    by blast
  from create_order_outcomes [where name' = "JStr (js ''Mira'')" and phone' = "JStr (js ''557'')"
      and pid = "JStr (js ''prod_1'')" and quantity' = "JStr (js '' 4 '')" and db = shop
      and new_id = "js ''ord_3''" and now = feb01 and serial' = JUndefined] t p1 n4 enough
  have "\<exists>ord. create_order shop (js ''ord_3'') feb01 (JStr (js ''Mira'')) (JStr (js ''557''))
                 (JStr (js ''prod_1'')) (JStr (js '' 4 '')) JUndefined
                = (Inr ord, shop\<lparr>orders := orders shop @ [ord]\<rparr>)
          \<and> status ord = PENDING
          \<and> quantity ord = (case Fin 4 of Fin q \<Rightarrow> Some q | _ \<Rightarrow> None)
          \<and> products (shop\<lparr>orders := orders shop @ [ord]\<rparr>) = products shop"
    by blast
  then have e: "\<exists>ord. create_order shop (js ''ord_3'') feb01 (JStr (js ''Mira'')) (JStr (js ''557''))
                 (JStr (js ''prod_1'')) (JStr (js '' 4 '')) JUndefined
                = (Inr ord, shop\<lparr>orders := orders shop @ [ord]\<rparr>)
          \<and> status ord = PENDING \<and> quantity ord = Some 4
          \<and> products (shop\<lparr>orders := orders shop @ [ord]\<rparr>) = products shop"
    by simp
  from create_order_outcomes [where name' = "JStr (js ''Mira'')" and phone' = "JStr (js ''557'')"
      and pid = "JStr (js ''prod_1'')" and quantity' = "JStr (js ''abc'')" and db = shop
      and new_id = "js ''ord_3''" and now = feb01 and serial' = JUndefined] t p1 nan
  have "\<exists>ord. create_order shop (js ''ord_3'') feb01 (JStr (js ''Mira'')) (JStr (js ''557''))
                 (JStr (js ''prod_1'')) (JStr (js ''abc'')) JUndefined
                = (Inr ord, shop\<lparr>orders := orders shop @ [ord]\<rparr>)
          \<and> status ord = PENDING
          \<and> quantity ord = (case NaN of Fin q \<Rightarrow> Some q | _ \<Rightarrow> None)"
    by blast
  then have f: "\<exists>ord. create_order shop (js ''ord_3'') feb01 (JStr (js ''Mira'')) (JStr (js ''557''))
                 (JStr (js ''prod_1'')) (JStr (js ''abc'')) JUndefined
                = (Inr ord, shop\<lparr>orders := orders shop @ [ord]\<rparr>)
          \<and> status ord = PENDING \<and> quantity ord = None"
    by simp
  from m0 a p9 b thr c p2 n2 less d p1 n4 enough e nan f more show ?thesis
    by (intro conjI)
qed

section \<open>An order with a negative quantity\<close>

lemma find_append:
  "find P (xs @ ys) = (case find P xs of None \<Rightarrow> find P ys | Some x \<Rightarrow> Some x)"
  by (induction xs) auto

lemma find_fresh:
  "k \<notin> f ` set xs \<Longrightarrow> find (\<lambda>x. f x = k) xs = None"
  by (induction xs) auto

text \<open>
  C9 as stated fails in two places. Approving the order does not always raise the
  stock: for a product whose warranty runs out of the range of dates (4000000 months),
  the approval throws when it prints the expiry, answers 500 and writes nothing, so
  the stock stays 5. And a quantity that coerces to \<open>-Infinity\<close> is negative, but the
  order is stored with the quantity \<^verbatim>\<open>null\<close>, and approving it leaves the stock as it is.
\<close>

theorem negative_quantity_counterexample:
  "create_order heirloom_shop (js ''ord_7'') jan31 (JStr (js ''Mira'')) (JStr (js ''557''))
       (JStr (js ''prod_3'')) (JStr (js ''-3'')) JUndefined
     = (Inr negative_order, heirloom_shop\<lparr>orders := [negative_order]\<rparr>)
   \<and> quantity negative_order = Some (- 3)
   \<and> approve utc (heirloom_shop\<lparr>orders := [negative_order]\<rparr>) feb01 (js ''ord_7'')
     = (Inl InternalError, heirloom_shop\<lparr>orders := [negative_order]\<rparr>)
   \<and> map stock (products (heirloom_shop\<lparr>orders := [negative_order]\<rparr>)) = [Some 5]
   \<and> Number (JStr (js ''-Infinity'')) = Inr NInf
   \<and> create_order shop (js ''ord_8'') jan31 (JStr (js ''Mira'')) (JStr (js ''557''))
       (JStr (js ''prod_2'')) (JStr (js ''-Infinity'')) JUndefined
     = (Inr unbounded_order, shop\<lparr>orders := [pending_order, big_order, unbounded_order]\<rparr>)
   \<and> quantity unbounded_order = None
   \<and> fst (approve utc (shop\<lparr>orders := [pending_order, big_order, unbounded_order]\<rparr>) feb01
            (js ''ord_8''))
     = Inr (unbounded_order\<lparr>status := APPROVED, approvedAt := Some feb01,
                              warrantyExpiry := None\<rparr>)
   \<and> map stock (products (snd (approve utc
          (shop\<lparr>orders := [pending_order, big_order, unbounded_order]\<rparr>) feb01 (js ''ord_8''))))
     = [Some 5, Some 1]"
  by code_simp

text \<open>
  C9, as amended: a quantity that is present and coerces to a finite negative number
  \<open>q\<close> passes both tests of the handler that places the order, for any product whose
  stock is not negative: the order is stored as PENDING with the quantity \<open>q\<close>.
  Approving it, under the identifier it was given, passes the stock test as well.
  When the warranty's expiry can be printed, as it always can for a product without
  warranty, the approval succeeds and the stock becomes the stock plus the absolute
  value of \<open>q\<close> (JavaScript's sum: rounded to a double, \<^verbatim>\<open>null\<close> when too large). When it
  cannot, the approval is answered 500 and nothing is written.
\<close>

theorem negative_quantity_order:
  assumes fields: "\<not> missing name'" "\<not> missing phone'" "\<not> missing pid" "\<not> missing quantity'"
      and neg: "Number quantity' = Inr (Fin q)" "q < 0"
      and p: "find (\<lambda>p. JStr (product.id p) = pid) (products db) = Some p"
      and stock: "0 \<le> stock_value p"
      and fresh: "new_id \<notin> order.id ` set (orders db)"
  shows "\<exists>ord. create_order db new_id now name' phone' pid quantity' serial'
                 = (Inr ord, db\<lparr>orders := orders db @ [ord]\<rparr>)
           \<and> status ord = PENDING
           \<and> quantity ord = Some q
           \<and> (\<forall>expiry. warranty_expiry tz p now' = Inr expiry \<longrightarrow>
                 (\<exists>r db''. approve tz (db\<lparr>orders := orders db @ [ord]\<rparr>) now' new_id = (Inr r, db'')
                    \<and> find (\<lambda>x. JStr (product.id x) = pid) (products db'')
                        = Some (p\<lparr>stock := stringify_num (round_double (stock_value p + \<bar>q\<bar>))\<rparr>)))
           \<and> (\<forall>e. warranty_expiry tz p now' = Inl e \<longrightarrow>
                 approve tz (db\<lparr>orders := orders db @ [ord]\<rparr>) now' new_id
                   = (Inl InternalError, db\<lparr>orders := orders db @ [ord]\<rparr>))
           \<and> (warrantyMonths p = None \<or> (\<exists>w. warrantyMonths p = Some w \<and> w \<le> 0) \<longrightarrow>
                 warranty_expiry tz p now' = Inr None)"
proof -
  have sv: "ToNumber (stock p) = stock_value p" "or_zero (stock p) = stock_value p"
    by (cases "stock p"; simp add: stock_value_def)+
  have pid: "pid = JStr (product.id p)"
    using p by (auto dest: find_Some_iff [THEN iffD1])
  define ord where "ord = \<lparr>order.id = new_id, order.name = stored name', phone = stored phone',
      productId = pid, quantity = Some q,
      serialNumber = (if truthy serial' then stored serial' else JNull),
      status = PENDING, order.createdAt = now, approvedAt = None, warrantyExpiry = None,
      rejectedAt = None\<rparr>"
  have st: "status ord = PENDING" and pi: "productId ord = pid" and qu: "quantity ord = Some q"
    by (simp_all add: ord_def)
  have "\<not> js_lt (Fin (ToNumber (stock p))) (Fin q)"
    using stock neg(2) by (simp add: sv)
  then have created: "create_order db new_id now name' phone' pid quantity' serial'
                   = (Inr ord, db\<lparr>orders := orders db @ [ord]\<rparr>)"
    using fields neg(1) p by (simp add: create_order_def missing_iff ord_def Let_def pid)
  have p': "find (\<lambda>x. JStr (product.id x) = productId ord) (products db) = Some p"
    using p by (simp add: pi)
  have found: "find (\<lambda>x. order.id x = new_id) (orders db @ [ord]) = Some ord"
    using find_fresh [OF fresh] by (simp add: find_append ord_def)
  have enough: "\<not> or_zero (stock p) < ToNumber (quantity ord)"
    using stock neg(2) by (simp add: sv qu)
  have abs: "stock_value p - q = stock_value p + \<bar>q\<bar>"
    using neg(2) by simp
  have ok: "\<exists>r db''. approve tz (db\<lparr>orders := orders db @ [ord]\<rparr>) now' new_id = (Inr r, db'')
              \<and> find (\<lambda>x. JStr (product.id x) = pid) (products db'')
                  = Some (p\<lparr>stock := stringify_num (round_double (stock_value p + \<bar>q\<bar>))\<rparr>)"
    if "warranty_expiry tz p now' = Inr expiry" for expiry
    using found p' enough that p
    by (simp add: approve_def Let_def st find_update_first js_sub_Fin pi sv qu abs)
  have ko: "approve tz (db\<lparr>orders := orders db @ [ord]\<rparr>) now' new_id
              = (Inl InternalError, db\<lparr>orders := orders db @ [ord]\<rparr>)"
    if "warranty_expiry tz p now' = Inl e" for e
    using found p' enough that by (simp add: approve_def st)
  have none: "warranty_expiry tz p now' = Inr None"
    if "warrantyMonths p = None \<or> (\<exists>w. warrantyMonths p = Some w \<and> w \<le> 0)"
    using that by (auto simp: warranty_expiry_def)
  from created st qu ok ko none show ?thesis
    by (intro exI [of _ ord]) blast
qed

theorem negative_quantity_order_witness:
  "\<not> missing (JStr (js ''Mira'')) \<and> \<not> missing (JStr (js ''557''))
   \<and> \<not> missing (JStr (js ''prod_1'')) \<and> \<not> missing (JStr (js ''-3.5''))
   \<and> Number (JStr (js ''-3.5'')) = Inr (Fin (- 7 / 2)) \<and> (- 7 / 2 :: rat) < 0
   \<and> find (\<lambda>p. JStr (product.id p) = JStr (js ''prod_1'')) (products shop) = Some widget
   \<and> 0 \<le> stock_value widget
   \<and> js ''ord_3'' \<notin> order.id ` set (orders shop)
   \<and> warranty_expiry utc widget feb01 = Inr (Some may01)
   \<and> (\<exists>ord. create_order shop (js ''ord_3'') jan31 (JStr (js ''Mira'')) (JStr (js ''557''))
                 (JStr (js ''prod_1'')) (JStr (js ''-3.5'')) JUndefined
                = (Inr ord, shop\<lparr>orders := orders shop @ [ord]\<rparr>)
          \<and> status ord = PENDING
          \<and> quantity ord = Some (- 7 / 2)
          \<and> (\<exists>r db''. approve utc (shop\<lparr>orders := orders shop @ [ord]\<rparr>) feb01 (js ''ord_3'')
                          = (Inr r, db'')
                 \<and> find (\<lambda>x. JStr (product.id x) = JStr (js ''prod_1'')) (products db'')
                     = Some (widget\<lparr>stock := Some (17 / 2)\<rparr>)))
   \<and> \<not> missing (JStr (js ''prod_3'')) \<and> \<not> missing (JStr (js ''-3''))
   \<and> Number (JStr (js ''-3'')) = Inr (Fin (- 3)) \<and> (- 3 :: rat) < 0
   \<and> find (\<lambda>p. JStr (product.id p) = JStr (js ''prod_3'')) (products heirloom_shop) = Some heirloom
   \<and> 0 \<le> stock_value heirloom
   \<and> js ''ord_7'' \<notin> order.id ` set (orders heirloom_shop)
   \<and> warranty_expiry utc heirloom feb01 = Inl RangeError
   \<and> (\<exists>ord. create_order heirloom_shop (js ''ord_7'') jan31 (JStr (js ''Mira'')) (JStr (js ''557''))
                 (JStr (js ''prod_3'')) (JStr (js ''-3'')) JUndefined
                = (Inr ord, heirloom_shop\<lparr>orders := orders heirloom_shop @ [ord]\<rparr>)
          \<and> quantity ord = Some (- 3)
          \<and> approve utc (heirloom_shop\<lparr>orders := orders heirloom_shop @ [ord]\<rparr>) feb01 (js ''ord_7'')
              = (Inl InternalError, heirloom_shop\<lparr>orders := orders heirloom_shop @ [ord]\<rparr>))"
proof -
  have f: "\<not> missing (JStr (js ''Mira''))" "\<not> missing (JStr (js ''557''))"
    "\<not> missing (JStr (js ''prod_1''))" "\<not> missing (JStr (js ''-3.5''))"
    and f3: "\<not> missing (JStr (js ''prod_3''))" and f4: "\<not> missing (JStr (js ''-3''))"
    by (simp_all add: missing_def js_def)
  have n: "Number (JStr (js ''-3.5'')) = Inr (Fin (- 7 / 2))"
    and n3: "Number (JStr (js ''-3'')) = Inr (Fin (- 3))"
    by code_simp+
  have l: "(- 7 / 2 :: rat) < 0" and l3: "(- 3 :: rat) < 0"
    by simp_all
  have p1: "find (\<lambda>p. JStr (product.id p) = JStr (js ''prod_1'')) (products shop) = Some widget"
    and p3: "find (\<lambda>p. JStr (product.id p) = JStr (js ''prod_3'')) (products heirloom_shop)
               = Some heirloom"
    by code_simp+
  have s: "0 \<le> stock_value widget" and s3: "0 \<le> stock_value heirloom"
    by (simp_all add: stock_value_def widget_def heirloom_def)
  have fr: "js ''ord_3'' \<notin> order.id ` set (orders shop)"
    by (simp add: shop_def pending_order_def big_order_def js_def)
  have fr3: "js ''ord_7'' \<notin> order.id ` set (orders heirloom_shop)"
    by (simp add: heirloom_shop_def)
  have w: "warranty_expiry utc widget feb01 = Inr (Some may01)"
    and w3: "warranty_expiry utc heirloom feb01 = Inl RangeError"
    by code_simp+
  have sum: "stringify_num (round_double (stock_value widget + \<bar>- 7 / 2\<bar>)) = Some (17 / 2)"
    by code_simp
  from negative_quantity_order [OF f n l p1 s fr, of jan31 JUndefined utc feb01]
  obtain ord where a: "create_order shop (js ''ord_3'') jan31 (JStr (js ''Mira'')) (JStr (js ''557''))
                 (JStr (js ''prod_1'')) (JStr (js ''-3.5'')) JUndefined
                = (Inr ord, shop\<lparr>orders := orders shop @ [ord]\<rparr>)"
    "status ord = PENDING" "quantity ord = Some (- 7 / 2)"
    and b: "\<forall>expiry. warranty_expiry utc widget feb01 = Inr expiry \<longrightarrow>
                 (\<exists>r db''. approve utc (shop\<lparr>orders := orders shop @ [ord]\<rparr>) feb01 (js ''ord_3'')
                              = (Inr r, db'')
                    \<and> find (\<lambda>x. JStr (product.id x) = JStr (js ''prod_1'')) (products db'')
                        = Some (widget\<lparr>stock := stringify_num
                                   (round_double (stock_value widget + \<bar>- 7 / 2\<bar>))\<rparr>))"
    by blast
  from b w have c: "\<exists>r db''. approve utc (shop\<lparr>orders := orders shop @ [ord]\<rparr>) feb01 (js ''ord_3'')
                          = (Inr r, db'')
                 \<and> find (\<lambda>x. JStr (product.id x) = JStr (js ''prod_1'')) (products db'')
                     = Some (widget\<lparr>stock := Some (17 / 2)\<rparr>)"
    unfolding sum by blast
  from negative_quantity_order [OF f(1,2) f3 f4 n3 l3 p3 s3 fr3, of jan31 JUndefined utc feb01]
  obtain ord3 where a3: "create_order heirloom_shop (js ''ord_7'') jan31 (JStr (js ''Mira''))
                 (JStr (js ''557'')) (JStr (js ''prod_3'')) (JStr (js ''-3'')) JUndefined
                = (Inr ord3, heirloom_shop\<lparr>orders := orders heirloom_shop @ [ord3]\<rparr>)"
    "quantity ord3 = Some (- 3)"
    and b3: "\<forall>e. warranty_expiry utc heirloom feb01 = Inl e \<longrightarrow>
                 approve utc (heirloom_shop\<lparr>orders := orders heirloom_shop @ [ord3]\<rparr>) feb01
                   (js ''ord_7'')
                   = (Inl InternalError, heirloom_shop\<lparr>orders := orders heirloom_shop @ [ord3]\<rparr>)"
    by blast
  from b3 w3 have c3: "approve utc (heirloom_shop\<lparr>orders := orders heirloom_shop @ [ord3]\<rparr>) feb01
                   (js ''ord_7'')
                   = (Inl InternalError, heirloom_shop\<lparr>orders := orders heirloom_shop @ [ord3]\<rparr>)"
    by blast
  from a c have first: "\<exists>ord. create_order shop (js ''ord_3'') jan31 (JStr (js ''Mira'')) (JStr (js ''557''))
                 (JStr (js ''prod_1'')) (JStr (js ''-3.5'')) JUndefined
                = (Inr ord, shop\<lparr>orders := orders shop @ [ord]\<rparr>)
          \<and> status ord = PENDING
          \<and> quantity ord = Some (- 7 / 2)
          \<and> (\<exists>r db''. approve utc (shop\<lparr>orders := orders shop @ [ord]\<rparr>) feb01 (js ''ord_3'')
                          = (Inr r, db'')
                 \<and> find (\<lambda>x. JStr (product.id x) = JStr (js ''prod_1'')) (products db'')
                     = Some (widget\<lparr>stock := Some (17 / 2)\<rparr>))"
    by blast
  from a3 c3 have second: "\<exists>ord. create_order heirloom_shop (js ''ord_7'') jan31 (JStr (js ''Mira''))
                 (JStr (js ''557'')) (JStr (js ''prod_3'')) (JStr (js ''-3'')) JUndefined
                = (Inr ord, heirloom_shop\<lparr>orders := orders heirloom_shop @ [ord]\<rparr>)
          \<and> quantity ord = Some (- 3)
          \<and> approve utc (heirloom_shop\<lparr>orders := orders heirloom_shop @ [ord]\<rparr>) feb01 (js ''ord_7'')
              = (Inl InternalError, heirloom_shop\<lparr>orders := orders heirloom_shop @ [ord]\<rparr>)"
    by blast
  from f f3 f4 n n3 l l3 p1 p3 s s3 fr fr3 w w3 first second show ?thesis
    by (intro conjI)
qed

section \<open>Stock that is never negative\<close>









end
